theory Spec2Isabelle
  imports Complex_Main "HOL-Library.Multiset"
begin

section \<open>Data model (app/models.py, app/schemas.py)\<close>

text \<open>
  Timestamps are the values of the \<^verbatim>\<open>created_at\<close> columns, read as integers (ticks of
  the database server's clock). Python's ints are unbounded, so identifiers are \<open>int\<close>.
  A nullable column or an \<^verbatim>\<open>Optional\<close> field is an \<open>option\<close>.
\<close>

type_synonym timestamp = int

text \<open>A row of table \<^verbatim>\<open>conversations\<close> (class \<^verbatim>\<open>Conversation\<close>).\<close>

record conversation =
  c_id :: int
  c_user_id :: "string option"
  c_title :: "string option"
  c_created_at :: timestamp

text \<open>A row of table \<^verbatim>\<open>messages\<close> (class \<^verbatim>\<open>Message\<close>).\<close>

record message =
  m_id :: int
  m_conversation_id :: int
  m_role :: string
  m_content :: string
  m_created_at :: timestamp

text \<open>\<^verbatim>\<open>schemas.ChatRequest\<close>, \<^verbatim>\<open>schemas.ChatResponse\<close> and the dict that
  \<^verbatim>\<open>get_messages\<close> returns (\<^verbatim>\<open>schemas.MessageList\<close>).\<close>

record chat_request =
  req_user_id :: "string option"
  req_conversation_id :: "int option"
  req_message :: string

record chat_response =
  resp_conversation_id :: int
  resp_reply :: string

record message_list =
  ml_conversation_id :: int
  ml_messages :: "message list"

text \<open>The two tables. Each list holds the rows in the order of their insertion.\<close>

record database =
  conversations :: "conversation list"
  messages :: "message list"

section \<open>Errors\<close>

text \<open>Every exception that leaves a handler is a value of this type.\<close>

datatype error =
    HTTPException int string
  | ValueError string
  | UpstreamError string
  | IndexError
  | IntegrityError
  | InvalidRequestError
  | ValidationError

section \<open>The database session\<close>

text \<open>
  Module \<^verbatim>\<open>app/database.py\<close> (\<^verbatim>\<open>engine\<close>, \<^verbatim>\<open>SessionLocal\<close>,
  \<^verbatim>\<open>get_db\<close>) is not among the sources, so what it fixes is a parameter of the model:
  \<^item> \<open>autoflush\<close>: whether the sessions of \<^verbatim>\<open>SessionLocal\<close> flush pending objects
    before a query (SQLAlchemy's default is to do so);
  \<^item> \<open>now\<close>: the value of \<^verbatim>\<open>func.now()\<close>, the server default of both
    \<^verbatim>\<open>created_at\<close> columns, at the n-th INSERT of a session;
  \<^item> \<open>scan_conversations\<close>, \<open>scan_messages\<close>: the order in which the engine reads the
    rows of a table. SQL leaves the order of rows with equal ORDER BY keys to the engine;
    a query result is the stable sort of the rows as scanned.
\<close>

record backend =
  autoflush :: bool
  now :: "nat \<Rightarrow> timestamp"
  scan_conversations :: "conversation list \<Rightarrow> conversation list"
  scan_messages :: "message list \<Rightarrow> message list"

text \<open>An engine returns every stored row once, in some order.\<close>

definition engine_ok :: "backend \<Rightarrow> bool" where
  "engine_ok bk =
     ((\<forall>xs. mset (scan_conversations bk xs) = mset xs) \<and>
      (\<forall>xs. mset (scan_messages bk xs) = mset xs))"

text \<open>An object given to \<^verbatim>\<open>db.add\<close> and not yet flushed: the constructor's arguments.
  The reply of the completion API may be \<^verbatim>\<open>None\<close>, so a message's content is optional
  until the INSERT.\<close>

datatype pending =
    NewConversation "string option" "string option"
  | NewMessage int string "string option"

text \<open>
  A session: the committed database (what other sessions read), the database as this
  session's transaction sees it, the objects added and not yet flushed, and the number of
  INSERTs done so far.
\<close>

record session =
  committed :: database
  txn :: database
  pending :: "pending list"
  inserts :: nat

text \<open>Modelled from the spec: the server-assigned primary key (\<^verbatim>\<open>app/database.py\<close>'s
  engine is not among the sources). Identifiers are assigned in increasing order, the first
  one being 1.\<close>

definition fresh_id :: "int list \<Rightarrow> int" where
  "fresh_id ids = fold max ids 0 + 1"

text \<open>One INSERT. Column \<^verbatim>\<open>messages.content\<close> is \<^verbatim>\<open>Mapped[str]\<close>, hence NOT NULL.\<close>

fun insert_obj :: "backend \<Rightarrow> session \<Rightarrow> pending \<Rightarrow> error + session" where
  "insert_obj bk s (NewConversation u t) =
     Inr (s\<lparr>txn := (txn s)\<lparr>conversations := conversations (txn s) @
             [\<lparr>c_id = fresh_id (map c_id (conversations (txn s))), c_user_id = u,
               c_title = t, c_created_at = now bk (inserts s)\<rparr>]\<rparr>,
            inserts := Suc (inserts s)\<rparr>)"
| "insert_obj bk s (NewMessage cid r None) = Inl IntegrityError"
| "insert_obj bk s (NewMessage cid r (Some c)) =
     Inr (s\<lparr>txn := (txn s)\<lparr>messages := messages (txn s) @
             [\<lparr>m_id = fresh_id (map m_id (messages (txn s))), m_conversation_id = cid,
               m_role = r, m_content = c, m_created_at = now bk (inserts s)\<rparr>]\<rparr>,
            inserts := Suc (inserts s)\<rparr>)"

fun flush_all :: "backend \<Rightarrow> pending list \<Rightarrow> session \<Rightarrow> error + session" where
  "flush_all bk [] s = Inr s"
| "flush_all bk (obj # objs) s =
     (case insert_obj bk s obj of Inl e \<Rightarrow> Inl e | Inr s' \<Rightarrow> flush_all bk objs s')"

text \<open>\<^verbatim>\<open>db.add\<close>, \<^verbatim>\<open>db.flush\<close>, \<^verbatim>\<open>db.commit\<close>, \<^verbatim>\<open>db.get(models.Conversation, id)\<close>.\<close>

definition Session_add :: "pending \<Rightarrow> session \<Rightarrow> session" where
  "Session_add obj s = s\<lparr>pending := pending s @ [obj]\<rparr>"

definition Session_flush :: "backend \<Rightarrow> session \<Rightarrow> error + session" where
  "Session_flush bk s = flush_all bk (pending s) (s\<lparr>pending := []\<rparr>)"

definition Session_commit :: "backend \<Rightarrow> session \<Rightarrow> error + session" where
  "Session_commit bk s =
     (case Session_flush bk s of Inl e \<Rightarrow> Inl e | Inr s' \<Rightarrow> Inr (s'\<lparr>committed := txn s'\<rparr>))"

definition Session_get :: "session \<Rightarrow> int \<Rightarrow> conversation option" where
  "Session_get s i = find (\<lambda>c. c_id c = i) (conversations (txn s))"

text \<open>What a query does first: flush, when the session autoflushes.\<close>

definition autoflush_step :: "backend \<Rightarrow> session \<Rightarrow> error + session" where
  "autoflush_step bk s = (if autoflush bk then Session_flush bk s else Inr s)"

text \<open>Modelled from the spec: \<^verbatim>\<open>get_db\<close> of \<^verbatim>\<open>app/database.py\<close>, which is not among
  the sources (``a scoped database session per request, acquired before handling,
  released after, regardless of success or failure''). A session starts on the committed
  database with nothing pending; releasing it leaves the committed database.\<close>

definition get_db :: "database \<Rightarrow> session" where
  "get_db d = \<lparr>committed = d, txn = d, pending = [], inserts = 0\<rparr>"

definition Session_close :: "session \<Rightarrow> database" where
  "Session_close s = committed s"

section \<open>The completion client (app/openai_client.py)\<close>

text \<open>\<^verbatim>\<open>httpx.Client()\<close> is built with no argument, so with no proxy argument, and the
  \<^verbatim>\<open>OpenAI\<close> client is given the key and this transport.\<close>

record httpx_client =
  hc_proxy :: "string option"

record openai_client =
  oc_api_key :: string
  oc_http_client :: httpx_client

definition httpx_Client :: httpx_client where
  "httpx_Client = \<lparr>hc_proxy = None\<rparr>"

text \<open>The argument is \<^verbatim>\<open>os.getenv("OPENAI_API_KEY")\<close>. Python's \<^verbatim>\<open>not api_key\<close> holds
  of \<^verbatim>\<open>None\<close> and of the empty string.\<close>

definition get_openai_client :: "string option \<Rightarrow> error + openai_client" where
  "get_openai_client api_key =
     (case api_key of
        None \<Rightarrow> Inl (ValueError ''OPENAI_API_KEY not set'')
      | Some k \<Rightarrow>
          if k = [] then Inl (ValueError ''OPENAI_API_KEY not set'')
          else Inr \<lparr>oc_api_key = k, oc_http_client = httpx_Client\<rparr>)"

text \<open>A turn, and the arguments of \<^verbatim>\<open>client.chat.completions.create\<close>.\<close>

record turn =
  t_role :: string
  t_content :: string

record completion_request =
  rq_model :: string
  rq_messages :: "turn list"
  rq_temperature :: rat

text \<open>The process environment and the completion API: \<open>create\<close> answers a request with
  an error or with the contents of the completion's choices, in order.\<close>

record env =
  OPENAI_API_KEY :: "string option"
  create :: "openai_client \<Rightarrow> completion_request \<Rightarrow> error + string option list"

section \<open>POST /chat (app/routers/chat.py)\<close>

definition SYSTEM_PROMPT :: string where
  "SYSTEM_PROMPT =
     ''You are a helpful, concise assistant. Keep replies short unless asked for detail.''"

definition system_turn :: turn where
  "system_turn = \<lparr>t_role = ''system'', t_content = SYSTEM_PROMPT\<rparr>"

definition turn_of :: "message \<Rightarrow> turn" where
  "turn_of m = \<lparr>t_role = m_role m, t_content = m_content m\<rparr>"

text \<open>Step 1: find or create the conversation. After \<^verbatim>\<open>db.add(conv); db.flush()\<close> the
  object \<^verbatim>\<open>conv\<close> is the row inserted last.\<close>

definition find_or_create ::
  "backend \<Rightarrow> chat_request \<Rightarrow> session \<Rightarrow> error + conversation \<times> session" where
  "find_or_create bk payload db =
     (case req_conversation_id payload of
        None \<Rightarrow>
          (case Session_flush bk (Session_add (NewConversation (req_user_id payload) None) db) of
             Inl e \<Rightarrow> Inl e
           | Inr db' \<Rightarrow> Inr (last (conversations (txn db')), db'))
      | Some cid \<Rightarrow>
          (case Session_get db cid of
             None \<Rightarrow> Inl (HTTPException 404 ''Conversation not found'')
           | Some conv \<Rightarrow> Inr (conv, db)))"

text \<open>Step 3: the history query, newest first, at most 20 rows.\<close>

definition history_query ::
  "backend \<Rightarrow> int \<Rightarrow> session \<Rightarrow> error + message list \<times> session" where
  "history_query bk cid db =
     (case autoflush_step bk db of
        Inl e \<Rightarrow> Inl e
      | Inr db' \<Rightarrow>
          Inr (take 20 (sort_key (\<lambda>m. - m_created_at m)
                 (filter (\<lambda>m. m_conversation_id m = cid)
                    (scan_messages bk (messages (txn db'))))), db'))"

text \<open>The handler. It returns the response or the exception, the session as the handler
  leaves it, and the requests sent to the completion API.\<close>

definition chat ::
  "env \<Rightarrow> backend \<Rightarrow> chat_request \<Rightarrow> session \<Rightarrow>
     (error + chat_response) \<times> session \<times> completion_request list" where
  "chat ev bk payload db =
     (case find_or_create bk payload db of
        Inl e \<Rightarrow> (Inl e, db, [])
      | Inr (conv, db1) \<Rightarrow>
          let db2 = Session_add (NewMessage (c_id conv) ''user'' (Some (req_message payload))) db1
          in
          (case history_query bk (c_id conv) db2 of
             Inl e \<Rightarrow> (Inl e, db2, [])
           | Inr (history, db3) \<Rightarrow>
               let history' = rev history;
                   msgs = system_turn # map turn_of history'
               in
               (case get_openai_client (OPENAI_API_KEY ev) of
                  Inl e \<Rightarrow> (Inl e, db3, [])
                | Inr client \<Rightarrow>
                    let request = \<lparr>rq_model = ''gpt-4o-mini'', rq_messages = msgs,
                                   rq_temperature = 3 / 10\<rparr>
                    in
                    (case create ev client request of
                       Inl e \<Rightarrow> (Inl e, db3, [request])
                     | Inr [] \<Rightarrow> (Inl IndexError, db3, [request])
                     | Inr (reply # _) \<Rightarrow>
                         let db4 = Session_add (NewMessage (c_id conv) ''assistant'' reply) db3
                         in
                         (case Session_commit bk db4 of
                            Inl e \<Rightarrow> (Inl e, db4, [request])
                          | Inr db5 \<Rightarrow>
                              (case Session_get db5 (c_id conv) of
                                 None \<Rightarrow> (Inl InvalidRequestError, db5, [request])
                               | Some conv' \<Rightarrow>
                                   (case reply of
                                      None \<Rightarrow> (Inl ValidationError, db5, [request])
                                    | Some r \<Rightarrow>
                                        (Inr \<lparr>resp_conversation_id = c_id conv',
                                              resp_reply = r\<rparr>, db5, [request]))))))))"

text \<open>The endpoint: the handler between \<^verbatim>\<open>get_db\<close>'s acquire and release.\<close>

definition POST_chat ::
  "env \<Rightarrow> backend \<Rightarrow> chat_request \<Rightarrow> database \<Rightarrow>
     (error + chat_response) \<times> database \<times> completion_request list" where
  "POST_chat ev bk payload d =
     (case chat ev bk payload (get_db d) of (r, s, sent) \<Rightarrow> (r, Session_close s, sent))"

section \<open>GET /conversations (app/routers/conversations.py)\<close>

text \<open>Python's \<^verbatim>\<open>if user_id:\<close> holds of a non-empty string only. In SQL a NULL
  \<^verbatim>\<open>user_id\<close> equals no value.\<close>

definition list_conversations ::
  "backend \<Rightarrow> string option \<Rightarrow> session \<Rightarrow> (error + conversation list) \<times> session" where
  "list_conversations bk user_id db =
     (case autoflush_step bk db of
        Inl e \<Rightarrow> (Inl e, db)
      | Inr db' \<Rightarrow>
          let q = scan_conversations bk (conversations (txn db'));
              q' = (if user_id \<noteq> None \<and> user_id \<noteq> Some []
                    then filter (\<lambda>c. c_user_id c = user_id) q else q)
          in (Inr (sort_key (\<lambda>c. - c_created_at c) q'), db'))"

definition get_messages ::
  "backend \<Rightarrow> int \<Rightarrow> session \<Rightarrow> (error + message_list) \<times> session" where
  "get_messages bk conversation_id db =
     (case Session_get db conversation_id of
        None \<Rightarrow> (Inr \<lparr>ml_conversation_id = conversation_id, ml_messages = []\<rparr>, db)
      | Some conv \<Rightarrow>
          (case autoflush_step bk db of
             Inl e \<Rightarrow> (Inl e, db)
           | Inr db' \<Rightarrow>
               (Inr \<lparr>ml_conversation_id = conversation_id,
                     ml_messages =
                       sort_key m_created_at
                         (filter (\<lambda>m. m_conversation_id m = conversation_id)
                            (scan_messages bk (messages (txn db'))))\<rparr>, db')))"

definition GET_conversations ::
  "backend \<Rightarrow> string option \<Rightarrow> database \<Rightarrow> (error + conversation list) \<times> database" where
  "GET_conversations bk user_id d =
     (case list_conversations bk user_id (get_db d) of (r, s) \<Rightarrow> (r, Session_close s))"

definition GET_messages ::
  "backend \<Rightarrow> int \<Rightarrow> database \<Rightarrow> (error + message_list) \<times> database" where
  "GET_messages bk conversation_id d =
     (case get_messages bk conversation_id (get_db d) of (r, s) \<Rightarrow> (r, Session_close s))"

section \<open>Sample data\<close>

text \<open>A backend that autoflushes, whose clock advances with every INSERT and whose engine
  reads the rows in the order of their insertion; a database with two conversations; an
  environment whose completion API answers, and one whose completion API fails.\<close>

definition sample_backend :: backend where
  "sample_backend =
     \<lparr>autoflush = True, now = (\<lambda>n. 300 + int n),
      scan_conversations = (\<lambda>xs. xs), scan_messages = (\<lambda>xs. xs)\<rparr>"

definition sample_db :: database where
  "sample_db =
     \<lparr>conversations =
        [\<lparr>c_id = 1, c_user_id = Some ''alice'', c_title = None, c_created_at = 100\<rparr>,
         \<lparr>c_id = 2, c_user_id = Some '''', c_title = None, c_created_at = 200\<rparr>],
      messages =
        [\<lparr>m_id = 1, m_conversation_id = 1, m_role = ''user'', m_content = ''hi'',
          m_created_at = 100\<rparr>,
         \<lparr>m_id = 2, m_conversation_id = 1, m_role = ''assistant'', m_content = ''hello'',
          m_created_at = 101\<rparr>,
         \<lparr>m_id = 3, m_conversation_id = 2, m_role = ''user'', m_content = ''ping'',
          m_created_at = 200\<rparr>]\<rparr>"

definition sample_env :: env where
  "sample_env = \<lparr>OPENAI_API_KEY = Some ''sk-1'', create = (\<lambda>c rq. Inr [Some ''pong''])\<rparr>"

definition failing_env :: env where
  "failing_env =
     \<lparr>OPENAI_API_KEY = Some ''sk-1'', create = (\<lambda>c rq. Inl (UpstreamError ''rate limit''))\<rparr>"

definition sample_request :: "int option \<Rightarrow> chat_request" where
  "sample_request cid = \<lparr>req_user_id = Some ''alice'', req_conversation_id = cid,
     req_message = ''how are you''\<rparr>"






section \<open>The session: basic facts\<close>

lemma get_db_simps [simp]:
  "committed (get_db d) = d" "txn (get_db d) = d" "pending (get_db d) = []"
  "inserts (get_db d) = 0"
  by (simp_all add: get_db_def)

lemma autoflush_step_get_db [simp]: "autoflush_step bk (get_db d) = Inr (get_db d)"
  by (simp add: autoflush_step_def Session_flush_def get_db_def)


lemma Session_get_SomeD: "Session_get s cid = Some conv \<Longrightarrow> c_id conv = cid"
  by (auto simp: Session_get_def find_Some_iff)

text \<open>Only \<^verbatim>\<open>db.commit\<close> changes the committed database.\<close>

lemma insert_obj_committed: "insert_obj bk s obj = Inr s' \<Longrightarrow> committed s' = committed s"
  by (induction bk s obj rule: insert_obj.induct) auto

lemma flush_all_committed: "flush_all bk objs s = Inr s' \<Longrightarrow> committed s' = committed s"
  by (induction objs arbitrary: s) (auto split: sum.splits dest: insert_obj_committed)

lemma Session_flush_committed: "Session_flush bk s = Inr s' \<Longrightarrow> committed s' = committed s"
  by (auto simp: Session_flush_def dest: flush_all_committed)

lemma autoflush_step_committed: "autoflush_step bk s = Inr s' \<Longrightarrow> committed s' = committed s"
  by (auto simp: autoflush_step_def split: if_splits dest: Session_flush_committed)

lemma find_or_create_committed:
  "find_or_create bk payload s = Inr (conv, s') \<Longrightarrow> committed s' = committed s"
  by (auto simp: find_or_create_def Session_add_def split: option.splits sum.splits
      dest!: Session_flush_committed)

lemma history_query_committed:
  "history_query bk cid s = Inr (h, s') \<Longrightarrow> committed s' = committed s"
  by (auto simp: history_query_def split: sum.splits dest: autoflush_step_committed)

text \<open>A flush inserts the pending objects in the order of \<^verbatim>\<open>db.add\<close>, so the
  conversation that step 1 creates is the last row of its table after the flush.\<close>

lemma flush_all_append:
  "flush_all bk (xs @ [x]) s =
     (case flush_all bk xs s of Inl e \<Rightarrow> Inl e | Inr s' \<Rightarrow> insert_obj bk s' x)"
  by (induction xs arbitrary: s) (auto split: sum.splits)

lemma find_or_create_new:
  assumes "req_conversation_id payload = None"
    and "find_or_create bk payload s = Inr (conv, s')"
  shows "conversations (txn s') \<noteq> [] \<and> conv = last (conversations (txn s')) \<and>
     c_user_id conv = req_user_id payload \<and> c_title conv = None"
  using assms
  by (auto simp: find_or_create_def Session_add_def Session_flush_def flush_all_append
      split: sum.splits)

lemma insert_obj_NewMessage_InrD:
  assumes "insert_obj bk s (NewMessage cid r c) = Inr s'"
  shows "c \<noteq> None \<and> conversations (txn s') = conversations (txn s)"
  using assms by (cases c) auto

lemma find_SomeD: "find P xs = Some a \<Longrightarrow> a \<in> set xs \<and> P a"
  by (auto simp: find_Some_iff)

section \<open>ORDER BY and LIMIT\<close>


lemma sorted_desc_wrt:
  fixes f :: "'a \<Rightarrow> int"
  shows "sorted_wrt (\<lambda>a b. f b \<le> f a) (sort_key (\<lambda>x. - f x) xs)"
proof -
  have "sorted (map (\<lambda>x. - f x) (sort_key (\<lambda>x. - f x) xs))"
    by simp
  then show ?thesis
    by (simp add: sorted_map)
qed





section \<open>The sample data\<close>

lemma sample_backend_ok: "engine_ok sample_backend"
  by (simp add: engine_ok_def sample_backend_def)




text \<open>One request on the sample database, evaluated.\<close>

lemma POST_chat_sample_run:
  "POST_chat sample_env sample_backend (sample_request (Some 1)) sample_db =
    (Inr \<lparr>resp_conversation_id = 1, resp_reply = ''pong''\<rparr>,
     sample_db\<lparr>messages := messages sample_db @
       [\<lparr>m_id = 4, m_conversation_id = 1, m_role = ''user'', m_content = ''how are you'',
          m_created_at = 300\<rparr>,
        \<lparr>m_id = 5, m_conversation_id = 1, m_role = ''assistant'', m_content = ''pong'',
          m_created_at = 301\<rparr>]\<rparr>,
     [\<lparr>rq_model = ''gpt-4o-mini'',
        rq_messages = [system_turn, \<lparr>t_role = ''user'', t_content = ''hi''\<rparr>,
          \<lparr>t_role = ''assistant'', t_content = ''hello''\<rparr>,
          \<lparr>t_role = ''user'', t_content = ''how are you''\<rparr>],
        rq_temperature = 3 / 10\<rparr>])"
  by (simp add: POST_chat_def chat_def find_or_create_def Session_add_def Session_flush_def
      Session_commit_def Session_get_def Session_close_def
      history_query_def autoflush_step_def get_openai_client_def turn_of_def
      sample_env_def sample_backend_def sample_request_def sample_db_def get_db_def
      fresh_id_def)

section \<open>The completion client\<close>




section \<open>GET /conversations\<close>

text \<open>
  Claim C4, as amended. The endpoint returns the conversations in descending order of
  creation time: those whose \<^verbatim>\<open>user_id\<close> equals the given value when a non-empty
  value is given, and all of them when no value or the empty string is given. It leaves
  the database as it was.
\<close>

theorem GET_conversations_filtered_newest_first:
  assumes "engine_ok bk"
  shows "\<exists>cs. GET_conversations bk user_id d = (Inr cs, d) \<and>
     sorted_wrt (\<lambda>a b. c_created_at b \<le> c_created_at a) cs \<and>
     mset cs =
       (if user_id = None \<or> user_id = Some [] then mset (conversations d)
        else mset (filter (\<lambda>c. c_user_id c = user_id) (conversations d)))"
proof -
  from assms have m: "mset (scan_conversations bk (conversations d)) = mset (conversations d)"
    by (simp add: engine_ok_def)
  then have "mset (filter (\<lambda>c. c_user_id c = user_id) (scan_conversations bk (conversations d)))
      = mset (filter (\<lambda>c. c_user_id c = user_id) (conversations d))"
    by (metis mset_filter)
  with m show ?thesis
    by (simp add: GET_conversations_def list_conversations_def Session_close_def Let_def
        sorted_desc_wrt)
qed

theorem GET_conversations_witness:
  "\<exists>cs. GET_conversations sample_backend (Some ''alice'') sample_db = (Inr cs, sample_db) \<and>
     mset cs =
       {#\<lparr>c_id = 1, c_user_id = Some ''alice'', c_title = None, c_created_at = 100\<rparr>#}"
  using GET_conversations_filtered_newest_first
    [OF sample_backend_ok, of "Some ''alice''" sample_db]
  by (auto simp: sample_db_def)

text \<open>The claim as stated fails when the empty string is given: the conversation of
  \<^verbatim>\<open>alice\<close> is returned too.\<close>

theorem GET_conversations_empty_user_id_unfiltered:
  "fst (GET_conversations sample_backend (Some '''') sample_db) =
     Inr [\<lparr>c_id = 2, c_user_id = Some '''', c_title = None, c_created_at = 200\<rparr>,
          \<lparr>c_id = 1, c_user_id = Some ''alice'', c_title = None, c_created_at = 100\<rparr>] \<and>
   Some ''alice'' \<noteq> Some ''''"
  by (simp add: GET_conversations_def list_conversations_def sample_backend_def sample_db_def)

section \<open>GET /conversations/{id}/messages\<close>




text \<open>
  Claim C6. For a conversation id that matches no conversation, the endpoint returns
  \<^verbatim>\<open>{conversation_id: id, messages: []}\<close> and no error, and leaves the database as it
  was.
\<close>

theorem GET_messages_unknown_id:
  assumes "cid \<notin> c_id ` set (conversations d)"
  shows "GET_messages bk cid d = (Inr \<lparr>ml_conversation_id = cid, ml_messages = []\<rparr>, d)"
proof -
  from assms have "Session_get (get_db d) cid = None"
    by (auto simp: Session_get_def find_None_iff)
  then show ?thesis
    by (simp add: GET_messages_def get_messages_def Session_close_def)
qed

theorem GET_messages_unknown_id_witness:
  "GET_messages sample_backend 7 sample_db =
     (Inr \<lparr>ml_conversation_id = 7, ml_messages = []\<rparr>, sample_db)"
  using GET_messages_unknown_id [of 7 sample_db sample_backend]
  by (simp add: sample_db_def)

text \<open>
  Claim C8. The endpoint leaves the database as it was, so a second call with no write in
  between runs on the same state and returns the same result. (The engine's scan order is
  a function of the stored rows.)
\<close>

theorem GET_messages_idempotent:
  "snd (GET_messages bk cid d) = d \<and>
   GET_messages bk cid (snd (GET_messages bk cid d)) = GET_messages bk cid d"
  by (auto simp: GET_messages_def get_messages_def Session_close_def split: option.splits)

text \<open>
  Claim C10. The endpoint returns a message list for the requested id, and every message
  in it belongs to the requested conversation.
\<close>

theorem GET_messages_only_requested_conversation:
  "\<exists>ml. fst (GET_messages bk cid d) = Inr ml \<and> ml_conversation_id ml = cid \<and>
     (\<forall>m \<in> set (ml_messages ml). m_conversation_id m = cid)"
  by (auto simp: GET_messages_def get_messages_def Session_close_def split: option.splits)

theorem GET_messages_only_requested_conversation_witness:
  "\<exists>ml. fst (GET_messages sample_backend 1 sample_db) = Inr ml \<and>
     map m_id (ml_messages ml) = [1, 2] \<and>
     list_all (\<lambda>m. m_conversation_id m = 1) (ml_messages ml)"
proof -
  from GET_messages_only_requested_conversation [of sample_backend 1 sample_db]
  obtain ml where
    ml: "fst (GET_messages sample_backend 1 sample_db) = Inr ml"
    and all: "\<forall>m\<in>set (ml_messages ml). m_conversation_id m = 1"
    by blast
  have "fst (GET_messages sample_backend 1 sample_db) =
      Inr \<lparr>ml_conversation_id = 1, ml_messages = take 2 (messages sample_db)\<rparr>"
    by (simp add: GET_messages_def get_messages_def Session_get_def sample_db_def
        sample_backend_def)
  with ml have "map m_id (ml_messages ml) = [1, 2]"
    by (simp add: sample_db_def)
  with ml all show ?thesis
    by (auto simp: list_all_iff)
qed

section \<open>POST /chat\<close>



text \<open>Without autoflush the user turn is still pending when the history is read: the
  first request of a conversation then sends the system turn alone.\<close>

lemma chat_prompt_without_autoflush:
  assumes "\<not> autoflush bk" and "req_conversation_id payload = None"
    and "get_openai_client (OPENAI_API_KEY ev) = Inr client"
    and "engine_ok bk" and "messages d = []"
  shows "snd (snd (POST_chat ev bk payload d)) =
     [\<lparr>rq_model = ''gpt-4o-mini'', rq_messages = [system_turn], rq_temperature = 3 / 10\<rparr>]"
proof -
  from assms(4) have "mset (scan_messages bk []) = {#}"
    by (simp add: engine_ok_def)
  then have "scan_messages bk [] = []"
    by simp
  with assms(1-3,5) show ?thesis
    by (simp add: POST_chat_def chat_def find_or_create_def Session_add_def history_query_def
        autoflush_step_def Session_flush_def get_db_def Let_def
        split: sum.splits list.splits option.splits)
qed

text \<open>Whatever the conversation holds, a request sent to the completion API has the
  system turn first and at most 21 turns, the fixed model and the fixed temperature.\<close>

lemma history_query_length:
  "history_query bk cid s = Inr (h, s') \<Longrightarrow> length h \<le> 20"
  by (auto simp: history_query_def split: sum.splits)

lemma chat_prompt_at_most_21:
  assumes "rq \<in> set (snd (snd (POST_chat ev bk payload d)))"
  shows "length (rq_messages rq) \<le> 21 \<and> hd (rq_messages rq) = system_turn \<and>
     rq_model rq = ''gpt-4o-mini'' \<and> rq_temperature rq = 3 / 10"
  using assms
  by (auto simp: POST_chat_def chat_def Let_def
      split: sum.splits prod.splits list.splits option.splits
      dest!: history_query_length)

text \<open>
  Claim C2. When the request reached the completion API (the conversation is resolved or
  created and the user message added) and that call fails, the response is the call's
  error and the database is what it was before the request: neither the user message nor
  a new conversation is committed.
\<close>

theorem POST_chat_upstream_failure_rolls_back:
  assumes "POST_chat ev bk payload d = (r, d', [rq])"
    and "get_openai_client (OPENAI_API_KEY ev) = Inr client"
    and "create ev client rq = Inl e"
  shows "r = Inl e \<and> d' = d"
  using assms
  by (auto simp: POST_chat_def chat_def Let_def Session_close_def Session_add_def
      split: sum.splits prod.splits list.splits option.splits
      dest!: find_or_create_committed history_query_committed)

theorem POST_chat_upstream_failure_witness:
  "fst (POST_chat failing_env sample_backend (sample_request None) sample_db) =
     Inl (UpstreamError ''rate limit'') \<and>
   fst (snd (POST_chat failing_env sample_backend (sample_request None) sample_db)) = sample_db \<and>
   length (snd (snd (POST_chat failing_env sample_backend (sample_request None) sample_db))) = 1"
proof -
  obtain r d' sent where
    p: "POST_chat failing_env sample_backend (sample_request None) sample_db = (r, d', sent)"
    by (cases "POST_chat failing_env sample_backend (sample_request None) sample_db")
  have "snd (snd (POST_chat failing_env sample_backend (sample_request None) sample_db)) =
      [\<lparr>rq_model = ''gpt-4o-mini'',
        rq_messages = [system_turn, \<lparr>t_role = ''user'', t_content = ''how are you''\<rparr>],
        rq_temperature = 3 / 10\<rparr>]"
    by (simp add: POST_chat_def chat_def find_or_create_def Session_add_def Session_flush_def
        history_query_def autoflush_step_def get_openai_client_def turn_of_def
        failing_env_def sample_backend_def sample_request_def sample_db_def get_db_def
        fresh_id_def)
  with p obtain rq where sent: "sent = [rq]"
    by simp
  have "get_openai_client (OPENAI_API_KEY failing_env) =
      Inr \<lparr>oc_api_key = ''sk-1'', oc_http_client = httpx_Client\<rparr>"
    by (simp add: get_openai_client_def failing_env_def)
  moreover have "create failing_env \<lparr>oc_api_key = ''sk-1'', oc_http_client = httpx_Client\<rparr> rq =
      Inl (UpstreamError ''rate limit'')"
    by (simp add: failing_env_def)
  ultimately have "r = Inl (UpstreamError ''rate limit'') \<and> d' = sample_db"
    using POST_chat_upstream_failure_rolls_back p [unfolded sent] by blast
  with p sent show ?thesis
    by simp
qed

text \<open>
  Claim C3. When the body carries a conversation id that matches no conversation, the
  response is the 404 ``Conversation not found'', the database is left as it was (so no
  message is persisted) and nothing is sent to the completion API.
\<close>

theorem POST_chat_unknown_conversation:
  assumes "req_conversation_id payload = Some cid"
    and "cid \<notin> c_id ` set (conversations d)"
  shows "POST_chat ev bk payload d =
     (Inl (HTTPException 404 ''Conversation not found''), d, [])"
proof -
  from assms(2) have "Session_get (get_db d) cid = None"
    by (auto simp: Session_get_def find_None_iff)
  with assms(1) show ?thesis
    by (simp add: POST_chat_def chat_def find_or_create_def Session_close_def)
qed

theorem POST_chat_unknown_conversation_witness:
  "POST_chat sample_env sample_backend (sample_request (Some 7)) sample_db =
     (Inl (HTTPException 404 ''Conversation not found''), sample_db, [])"
  by (rule POST_chat_unknown_conversation [where cid = 7])
    (simp_all add: sample_db_def sample_request_def)

text \<open>
  Claim C9. A successful POST /chat appends exactly two messages to the table, both of
  the conversation named in the response: first one with role ``user'' whose content is
  the request's message, then one with role ``assistant'' whose content is the reply of
  the response. The conversation is the one the request names, or a new one with the
  request's user id; the reply is the first choice of the one completion requested.
\<close>

theorem POST_chat_appends_user_then_assistant:
  assumes "POST_chat ev bk payload d = (Inr resp, d', sent)"
  shows "(\<exists>u a. messages d' = messages d @ [u, a] \<and>
      m_conversation_id u = resp_conversation_id resp \<and> m_role u = ''user'' \<and>
      m_content u = req_message payload \<and>
      m_conversation_id a = resp_conversation_id resp \<and> m_role a = ''assistant'' \<and>
      m_content a = resp_reply resp) \<and>
     (case req_conversation_id payload of
        Some cid \<Rightarrow> resp_conversation_id resp = cid \<and> conversations d' = conversations d
      | None \<Rightarrow> \<exists>c. conversations d' = conversations d @ [c] \<and>
          c_id c = resp_conversation_id resp \<and> c_user_id c = req_user_id payload \<and>
          c_title c = None) \<and>
     (\<exists>rq client rest. sent = [rq] \<and> get_openai_client (OPENAI_API_KEY ev) = Inr client \<and>
        create ev client rq = Inr (Some (resp_reply resp) # rest))"
proof (cases "req_conversation_id payload")
  case None
  with assms show ?thesis
    by (cases "autoflush bk")
      (auto simp: POST_chat_def chat_def find_or_create_def Session_add_def history_query_def
        autoflush_step_def Session_flush_def Session_commit_def Session_close_def get_db_def
        Let_def
        split: sum.splits list.splits option.splits if_splits dest!: Session_get_SomeD)
next
  case (Some cid)
  with assms show ?thesis
    by (cases "autoflush bk")
      (auto simp: POST_chat_def chat_def find_or_create_def Session_add_def history_query_def
        autoflush_step_def Session_flush_def Session_commit_def Session_close_def get_db_def
        Let_def
        split: sum.splits list.splits option.splits if_splits dest!: Session_get_SomeD)
qed

theorem POST_chat_appends_witness:
  "\<exists>u a. messages (fst (snd (POST_chat sample_env sample_backend (sample_request (Some 1))
        sample_db))) = messages sample_db @ [u, a] \<and>
     m_conversation_id u = 1 \<and> m_role u = ''user'' \<and> m_content u = ''how are you'' \<and>
     m_conversation_id a = 1 \<and> m_role a = ''assistant'' \<and> m_content a = ''pong''"
  using POST_chat_appends_user_then_assistant [OF POST_chat_sample_run]
  by (simp only: POST_chat_sample_run fst_conv snd_conv) (simp add: sample_request_def)

text \<open>Every exception that leaves the handler leaves the database as it was: the
  handler commits once, after the completion call, and nothing can fail after the
  commit.\<close>

lemma POST_chat_error_leaves_database:
  assumes "POST_chat ev bk payload d = (Inl e, d', sent)"
  shows "d' = d"
proof (cases "req_conversation_id payload")
  case None
  with assms show ?thesis
    by (cases "autoflush bk")
      (auto simp: POST_chat_def chat_def find_or_create_def Session_add_def history_query_def
        autoflush_step_def Session_flush_def Session_commit_def Session_close_def get_db_def
        Session_get_def Let_def find_None_iff
        split: sum.splits list.splits option.splits if_splits
        dest!: insert_obj_NewMessage_InrD)
next
  case (Some cid)
  with assms show ?thesis
    by (cases "autoflush bk")
      (auto simp: POST_chat_def chat_def find_or_create_def Session_add_def history_query_def
        autoflush_step_def Session_flush_def Session_commit_def Session_close_def get_db_def
        Session_get_def Let_def find_None_iff
        split: sum.splits list.splits option.splits if_splits
        dest!: insert_obj_NewMessage_InrD find_SomeD; blast)+
qed

end
